theory Spec2Isabelle
  imports Complex_Main "HOL-Library.Multiset" "HOL-Library.Sublist"
begin

section \<open>Python values as the scripts see them\<close>

text \<open>
  Both scripts (\<^verbatim>\<open>main.py\<close>, \<^verbatim>\<open>resolve_duplicates.py\<close>) work on untyped values
  decoded from JSON: the platform's records, the reasoning service's answer. A value is
  modelled as it comes out of Python's \<^verbatim>\<open>json\<close> module: \<^verbatim>\<open>None\<close>, a bool, a number
  (by its exact decimal value; the rounding of floats is not modelled), a \<^verbatim>\<open>str\<close>,
  a \<^verbatim>\<open>list\<close>, or a \<^verbatim>\<open>dict\<close> with string keys in insertion order.
\<close>

datatype json =
    JNull
  | JBool bool
  | JNum rat
  | JStr string
  | JArr "json list"
  | JObj "(string \<times> json) list"

text \<open>The exceptions the modelled code can raise outside a \<^verbatim>\<open>try\<close> block.\<close>

datatype error = AttributeError | TypeError | KeyError | IndexError | JSONDecodeError

type_synonym 'a result = "error + 'a"

text \<open>Truth value of a Python object, as used by \<^verbatim>\<open>if x:\<close> and \<^verbatim>\<open>not x\<close>.\<close>

fun truthy :: "json \<Rightarrow> bool" where
  "truthy JNull = False"
| "truthy (JBool b) = b"
| "truthy (JNum r) = (r \<noteq> 0)"
| "truthy (JStr s) = (s \<noteq> [])"
| "truthy (JArr xs) = (xs \<noteq> [])"
| "truthy (JObj kvs) = (kvs \<noteq> [])"

text \<open>\<^verbatim>\<open>x.get(k, d)\<close>: only a dict has the method.\<close>

fun py_get :: "json \<Rightarrow> string \<Rightarrow> json \<Rightarrow> json result" where
  "py_get (JObj kvs) k d = Inr (case map_of kvs k of None \<Rightarrow> d | Some v \<Rightarrow> v)"
| "py_get _ k d = Inl AttributeError"

text \<open>\<^verbatim>\<open>x[k]\<close> with a string key \<open>k\<close>.\<close>

fun py_getitem :: "json \<Rightarrow> string \<Rightarrow> json result" where
  "py_getitem (JObj kvs) k = (case map_of kvs k of None \<Rightarrow> Inl KeyError | Some v \<Rightarrow> Inr v)"
| "py_getitem _ k = Inl TypeError"

text \<open>\<^verbatim>\<open>x[0]\<close>.\<close>

fun py_index0 :: "json \<Rightarrow> json result" where
  "py_index0 (JArr []) = Inl IndexError"
| "py_index0 (JArr (v # vs)) = Inr v"
| "py_index0 (JStr []) = Inl IndexError"
| "py_index0 (JStr (c # cs)) = Inr (JStr [c])"
| "py_index0 (JObj kvs) = Inl KeyError"
| "py_index0 _ = Inl TypeError"

text \<open>\<^verbatim>\<open>len(x)\<close>.\<close>

fun py_len :: "json \<Rightarrow> nat result" where
  "py_len (JStr s) = Inr (length s)"
| "py_len (JArr xs) = Inr (length xs)"
| "py_len (JObj kvs) = Inr (length kvs)"
| "py_len _ = Inl TypeError"

text \<open>\<^verbatim>\<open>k in x\<close> for a string \<open>k\<close>: key of a dict, element of a list, substring of a str.\<close>

definition is_substring :: "string \<Rightarrow> string \<Rightarrow> bool" where
  "is_substring p s = list_ex (prefix p) (suffixes s)"

fun py_contains :: "string \<Rightarrow> json \<Rightarrow> bool result" where
  "py_contains k (JObj kvs) = Inr (map_of kvs k \<noteq> None)"
| "py_contains k (JArr xs) = Inr (List.member xs (JStr k))"
| "py_contains k (JStr s) = Inr (is_substring k s)"
| "py_contains k _ = Inl TypeError"

text \<open>Sequencing of calls that may raise.\<close>

definition bind :: "'a result \<Rightarrow> ('a \<Rightarrow> 'b result) \<Rightarrow> 'b result" where
  "bind m f = (case m of Inl e \<Rightarrow> Inl e | Inr x \<Rightarrow> f x)"

section \<open>String operations of the standard library\<close>

text \<open>
  \<^verbatim>\<open>str.strip()\<close> removes leading and trailing whitespace; on the ASCII range these are
  the characters 9 to 13, 28 to 31 and 32.
\<close>

definition is_space :: "char \<Rightarrow> bool" where
  "is_space c = (let n = (of_char c :: nat) in (9 \<le> n \<and> n \<le> 13) \<or> (28 \<le> n \<and> n \<le> 32))"

definition py_strip :: "string \<Rightarrow> string" where
  "py_strip s = rev (dropWhile is_space (rev (dropWhile is_space s)))"

text \<open>
  \<^verbatim>\<open>s.replace(p, "")\<close> for a non-empty \<open>p\<close>: every occurrence, scanning from the left,
  occurrences not overlapping.
\<close>

fun py_remove :: "string \<Rightarrow> string \<Rightarrow> string" where
  "py_remove p [] = []"
| "py_remove p (c # cs) =
     (if p \<noteq> [] \<and> prefix p (c # cs) then py_remove p (drop (length p) (c # cs))
      else c # py_remove p cs)"

text \<open>\<^verbatim>\<open>str.lower()\<close> on ASCII letters.\<close>

definition lower_char :: "char \<Rightarrow> char" where
  "lower_char c = (let n = (of_char c :: nat) in if 65 \<le> n \<and> n \<le> 90 then char_of (n + 32) else c)"

definition py_lower :: "string \<Rightarrow> string" where
  "py_lower s = map lower_char s"

section \<open>Decoding JSON text\<close>

text \<open>
  \<^verbatim>\<open>json.loads\<close> belongs to Python's standard library, not to this repository; the
  scripts depend on whether it returns a value or raises. It is modelled by a
  recursive-descent decoder for the JSON grammar that returns \<open>None\<close> where
  \<^verbatim>\<open>json.loads\<close> raises. Not modelled: the non-standard literals \<^verbatim>\<open>NaN\<close> and
  \<^verbatim>\<open>Infinity\<close> (every caller here treats such a value like a decoding failure), and the
  pairing of two \<^verbatim>\<open>\u\<close> escapes into one character. A string holds the UTF-8 bytes of the
  text.
\<close>

definition is_json_ws :: "char \<Rightarrow> bool" where
  "is_json_ws c = (c = CHR 0x20 \<or> c = CHR 0x09 \<or> c = CHR 0x0A \<or> c = CHR 0x0D)"

definition skip_ws :: "string \<Rightarrow> string" where
  "skip_ws s = dropWhile is_json_ws s"

definition starts :: "char \<Rightarrow> string \<Rightarrow> bool" where
  "starts c s = (case s of [] \<Rightarrow> False | d # _ \<Rightarrow> d = c)"

definition is_digit :: "char \<Rightarrow> bool" where
  "is_digit c = (let n = (of_char c :: nat) in 48 \<le> n \<and> n \<le> 57)"

definition digits_val :: "string \<Rightarrow> nat" where
  "digits_val ds = foldl (\<lambda>a c. 10 * a + (of_char c - 48)) 0 ds"

definition hex_val :: "char \<Rightarrow> nat option" where
  "hex_val c =
     (let n = (of_char c :: nat) in
      if 48 \<le> n \<and> n \<le> 57 then Some (n - 48)
      else if 65 \<le> n \<and> n \<le> 70 then Some (n - 55)
      else if 97 \<le> n \<and> n \<le> 102 then Some (n - 87)
      else None)"

fun hex_digits :: "string \<Rightarrow> nat \<Rightarrow> nat option" where
  "hex_digits [] a = Some a"
| "hex_digits (c # cs) a = (case hex_val c of None \<Rightarrow> None | Some d \<Rightarrow> hex_digits cs (16 * a + d))"

definition utf8 :: "nat \<Rightarrow> string" where
  "utf8 n =
     (if n < 128 then [char_of n]
      else if n < 2048 then [char_of (192 + n div 64), char_of (128 + n mod 64)]
      else [char_of (224 + n div 4096), char_of (128 + (n div 64) mod 64), char_of (128 + n mod 64)])"

definition unescape :: "char \<Rightarrow> char option" where
  "unescape e =
     (if e = CHR 0x22 \<or> e = CHR 0x5C \<or> e = CHR ''/'' then Some e
      else if e = CHR ''b'' then Some (CHR 0x08)
      else if e = CHR ''f'' then Some (CHR 0x0C)
      else if e = CHR ''n'' then Some (CHR 0x0A)
      else if e = CHR ''r'' then Some (CHR 0x0D)
      else if e = CHR ''t'' then Some (CHR 0x09)
      else None)"

text \<open>The body of a string literal, after the opening quote; \<open>acc\<close> is reversed.\<close>

fun scan_string :: "string \<Rightarrow> string \<Rightarrow> (string \<times> string) option" where
  "scan_string [] acc = None"
| "scan_string (c # cs) acc =
     (if c = CHR 0x22 then Some (rev acc, cs)
      else if c = CHR 0x5C then
        (case cs of
           [] \<Rightarrow> None
         | e # r \<Rightarrow>
             if e = CHR ''u'' then
               (case r of
                  h1 # h2 # h3 # h4 # r' \<Rightarrow>
                    (case hex_digits [h1, h2, h3, h4] 0 of
                       None \<Rightarrow> None
                     | Some n \<Rightarrow> scan_string r' (rev (utf8 n) @ acc))
                | _ \<Rightarrow> None)
             else
               (case unescape e of
                  None \<Rightarrow> None
                | Some ch \<Rightarrow> scan_string r (ch # acc)))
      else if (of_char c :: nat) < 32 then None
      else scan_string cs (c # acc))"

text \<open>
  A number literal: the longest prefix matching
  \<^verbatim>\<open>-?(0|[1-9][0-9]*)(\.[0-9]+)?([eE][-+]?[0-9]+)?\<close>, as the decoder's scanner takes it.
\<close>

definition scan_frac :: "string \<Rightarrow> string \<times> string" where
  "scan_frac s =
     (if starts (CHR ''.'') s \<and> takeWhile is_digit (tl s) \<noteq> []
      then (takeWhile is_digit (tl s), dropWhile is_digit (tl s))
      else ([], s))"

definition scan_exp :: "string \<Rightarrow> int \<times> string" where
  "scan_exp s =
     (if starts (CHR ''e'') s \<or> starts (CHR ''E'') s then
        (let r = tl s;
             neg = starts (CHR ''-'') r;
             r' = (if neg \<or> starts (CHR ''+'') r then tl r else r);
             ds = takeWhile is_digit r'
         in if ds = [] then (0, s)
            else ((if neg then - int (digits_val ds) else int (digits_val ds)), dropWhile is_digit r'))
      else (0, s))"

definition scan_number :: "string \<Rightarrow> (json \<times> string) option" where
  "scan_number s =
     (let neg = starts (CHR ''-'') s;
          s1 = (if neg then tl s else s)
      in if s1 = [] \<or> \<not> is_digit (hd s1) then None
         else
           (let ip = (if hd s1 = CHR ''0'' then [hd s1] else takeWhile is_digit s1);
                s2 = drop (length ip) s1;
                (fd, s3) = scan_frac s2;
                (ex, s4) = scan_exp s3;
                m = (of_nat (digits_val (ip @ fd)) :: rat) / 10 ^ length fd;
                v = (if 0 \<le> ex then m * 10 ^ nat ex else m / 10 ^ nat (- ex))
            in Some (JNum (if neg then - v else v), s4)))"

text \<open>\<^verbatim>\<open>d[k] = v\<close>: a key keeps the place of its first insertion and the last value.\<close>

fun dict_set :: "string \<Rightarrow> 'v \<Rightarrow> (string \<times> 'v) list \<Rightarrow> (string \<times> 'v) list" where
  "dict_set k v [] = [(k, v)]"
| "dict_set k v (p # ps) = (if fst p = k then (k, v) # ps else p # dict_set k v ps)"

definition dict_of_pairs :: "(string \<times> 'v) list \<Rightarrow> (string \<times> 'v) list" where
  "dict_of_pairs ps = foldl (\<lambda>d (k, v). dict_set k v d) [] ps"

text \<open>
  The decoder proper. The first argument bounds the depth of the calls; the decoder
  consumes a character on each call, so twice the length of the text is enough.
  The accumulators of \<open>parse_elems\<close> and \<open>parse_members\<close> are reversed.
\<close>

fun parse_value :: "nat \<Rightarrow> string \<Rightarrow> (json \<times> string) option"
  and parse_elems :: "nat \<Rightarrow> string \<Rightarrow> json list \<Rightarrow> (json \<times> string) option"
  and parse_members :: "nat \<Rightarrow> string \<Rightarrow> (string \<times> json) list \<Rightarrow> (json \<times> string) option"
where
  "parse_value 0 s = None"
| "parse_value (Suc n) s =
     (if starts (CHR 0x22) s then
        (case scan_string (tl s) [] of None \<Rightarrow> None | Some (t, r) \<Rightarrow> Some (JStr t, r))
      else if starts (CHR ''['') s then
        (if starts (CHR '']'') (skip_ws (tl s)) then Some (JArr [], tl (skip_ws (tl s)))
         else parse_elems n (skip_ws (tl s)) [])
      else if starts (CHR ''{'') s then
        (if starts (CHR ''}'') (skip_ws (tl s)) then Some (JObj [], tl (skip_ws (tl s)))
         else parse_members n (skip_ws (tl s)) [])
      else if prefix ''null'' s then Some (JNull, drop 4 s)
      else if prefix ''true'' s then Some (JBool True, drop 4 s)
      else if prefix ''false'' s then Some (JBool False, drop 5 s)
      else scan_number s)"
| "parse_elems 0 s acc = None"
| "parse_elems (Suc n) s acc =
     (case parse_value n s of
        None \<Rightarrow> None
      | Some (v, r) \<Rightarrow>
          if starts (CHR '']'') (skip_ws r) then Some (JArr (rev (v # acc)), tl (skip_ws r))
          else if starts (CHR '','') (skip_ws r) then parse_elems n (skip_ws (tl (skip_ws r))) (v # acc)
          else None)"
| "parse_members 0 s acc = None"
| "parse_members (Suc n) s acc =
     (if starts (CHR 0x22) s then
        (case scan_string (tl s) [] of
           None \<Rightarrow> None
         | Some (k, r) \<Rightarrow>
             if starts (CHR '':'') (skip_ws r) then
               (case parse_value n (skip_ws (tl (skip_ws r))) of
                  None \<Rightarrow> None
                | Some (v, r2) \<Rightarrow>
                    if starts (CHR ''}'') (skip_ws r2)
                    then Some (JObj (dict_of_pairs (rev ((k, v) # acc))), tl (skip_ws r2))
                    else if starts (CHR '','') (skip_ws r2)
                    then parse_members n (skip_ws (tl (skip_ws r2))) ((k, v) # acc)
                    else None)
             else None)
      else None)"

definition json_loads :: "string \<Rightarrow> json option" where
  "json_loads s =
     (case parse_value (2 * length s + 2) (skip_ws s) of
        None \<Rightarrow> None
      | Some (v, r) \<Rightarrow> if skip_ws r = [] then Some v else None)"

section \<open>The reasoning service and the platform\<close>

text \<open>
  A prompt is a fixed template filled with two values; the model keeps which template and
  the values (\<^verbatim>\<open>create_ai_prompt\<close> in \<^verbatim>\<open>main.py\<close>, the f-string of
  \<^verbatim>\<open>are_abstracts_duplicates\<close> in \<^verbatim>\<open>resolve_duplicates.py\<close>).
\<close>

datatype prompt =
    ScreeningPrompt json json
  | DuplicatePrompt json json

text \<open>
  What \<^verbatim>\<open>client.models.generate_content\<close> does: it raises, or it returns a response
  whose \<^verbatim>\<open>text\<close> is \<^verbatim>\<open>None\<close> or a string. The service is a parameter of the model,
  called with the model name and the prompt.
\<close>

datatype reply = Raises | NoText | Text string

type_synonym ai_service = "string \<Rightarrow> prompt \<Rightarrow> reply"

text \<open>
  A response of the platform: \<^verbatim>\<open>ok\<close>, \<^verbatim>\<open>status\<close>, and the decoded body
  (\<open>None\<close> where \<^verbatim>\<open>response.json()\<close> raises). The platform is a parameter: the
  answer to the \<open>k\<close>-th fetch of a run, asked with \<^verbatim>\<open>start\<close> and \<^verbatim>\<open>length\<close>;
  \<open>None\<close> where the fetch raises, which \<^verbatim>\<open>fetch_undecided_articles\<close> turns into \<^verbatim>\<open>None\<close>.
\<close>

record api_response =
  ok :: bool
  status :: nat
  body :: "json option"

type_synonym platform = "nat \<Rightarrow> nat \<Rightarrow> nat \<Rightarrow> api_response option"

text \<open>
  The effects of a run, in order: a call of the reasoning service, a fetch, a call of
  \<^verbatim>\<open>update_article_status\<close> with its arguments (article id, decision, reason), the
  \<^verbatim>\<open>PATCH\<close> of \<^verbatim>\<open>resolve_duplicate_status\<close> (article id, payload), a pause in seconds,
  the browser setup.
\<close>

datatype event =
    OracleCall string prompt
  | Fetch nat nat
  | UpdateStatus json json json
  | Patch json json
  | Sleep nat
  | FullSetup

section \<open>Screening: \<^verbatim>\<open>get_ai_decision\<close>\<close>

definition decision_dict :: "string \<Rightarrow> string \<Rightarrow> json" where
  "decision_dict d r = JObj [(''decision'', JStr d), (''reason'', JStr r)]"

text \<open>
  \<^verbatim>\<open>response.text.strip().replace("```json", "").replace("```", "").strip()\<close>
  (the same expression in both scripts).
\<close>

definition clean_response :: "string \<Rightarrow> string" where
  "clean_response t = py_strip (py_remove ''```'' (py_remove ''```json'' (py_strip t)))"

text \<open>Lines 83 to 85 of \<^verbatim>\<open>main.py\<close>: the content of the first abstract, or \<^verbatim>\<open>""\<close>.\<close>

definition article_abstract :: "json \<Rightarrow> json result" where
  "article_abstract article =
     bind (py_get article ''abstracts'' JNull) (\<lambda>a.
       if truthy a then
         bind (py_getitem article ''abstracts'') (\<lambda>l.
         bind (py_len l) (\<lambda>n.
           if n > 0 then
             bind (py_getitem article ''abstracts'') (\<lambda>l'.
             bind (py_index0 l') (\<lambda>x. py_get x ''content'' (JStr [])))
           else Inr (JStr [])))
       else Inr (JStr []))"

text \<open>
  The body of the \<^verbatim>\<open>try\<close> once the service has answered with text \<open>t\<close>: \<open>None\<close> where
  an exception is raised (by \<^verbatim>\<open>json.loads\<close>, by \<^verbatim>\<open>in\<close> or by the subscript).
\<close>

definition read_decision :: "string \<Rightarrow> json option" where
  "read_decision t =
     (case json_loads (clean_response t) of
        None \<Rightarrow> None
      | Some decision_json \<Rightarrow>
          (case py_contains ''decision'' decision_json of
             Inl e \<Rightarrow> None
           | Inr False \<Rightarrow> Some (decision_dict ''maybe'' ''AI Format Error'')
           | Inr True \<Rightarrow>
               (case py_getitem decision_json ''decision'' of
                  Inl e \<Rightarrow> None
                | Inr v \<Rightarrow>
                    if v = JStr ''include'' \<or> v = JStr ''exclude'' then Some decision_json
                    else Some (decision_dict ''maybe'' ''AI Format Error''))))"

text \<open>
  The \<^verbatim>\<open>except Exception\<close> handler: its message reads \<^verbatim>\<open>article['id']\<close>, which raises
  \<^verbatim>\<open>KeyError\<close> out of the function when the record has no id.
\<close>

definition on_exception :: "json \<Rightarrow> event list \<Rightarrow> (json \<times> event list) result" where
  "on_exception article calls =
     bind (py_getitem article ''id'') (\<lambda>_. Inr (decision_dict ''maybe'' ''API Call Error'', calls))"

definition screening_model :: string where
  "screening_model = ''gemini-2.5-flash-lite-preview-06-17''"

text \<open>The result is the returned dict together with the calls made to the service.\<close>

definition get_ai_decision :: "ai_service \<Rightarrow> json \<Rightarrow> (json \<times> event list) result" where
  "get_ai_decision ai article =
     bind (py_get article ''title'' (JStr [])) (\<lambda>title.
     bind (article_abstract article) (\<lambda>abstract.
       if \<not> truthy title \<or> \<not> truthy abstract
       then Inr (decision_dict ''exclude'' ''Missing Data'', [])
       else
         (let p = ScreeningPrompt title abstract; calls = [OracleCall screening_model p]
          in case ai screening_model p of
               Raises \<Rightarrow> on_exception article calls
             | NoText \<Rightarrow> Inr (decision_dict ''maybe'' ''AI Empty Response'', calls)
             | Text t \<Rightarrow>
                 (case read_decision t of
                    None \<Rightarrow> on_exception article calls
                  | Some d \<Rightarrow> Inr (d, calls)))))"

section \<open>Screening: \<^verbatim>\<open>update_article_status\<close>\<close>



section \<open>Screening: the loop of \<^verbatim>\<open>main\<close>\<close>

text \<open>
  \<^verbatim>\<open>title[:70]\<close> in the progress message: a str or a list can be sliced, anything else
  raises (a dict raises \<^verbatim>\<open>TypeError\<close> or, from Python 3.12, \<^verbatim>\<open>KeyError\<close>).
\<close>

fun py_slice :: "json \<Rightarrow> json result" where
  "py_slice (JStr s) = Inr (JStr (take 70 s))"
| "py_slice (JArr xs) = Inr (JArr (take 70 xs))"
| "py_slice _ = Inl TypeError"

text \<open>\<^verbatim>\<open>for x in v\<close>: the elements of a list, the characters of a str, the keys of a dict.\<close>

fun py_iter :: "json \<Rightarrow> json list result" where
  "py_iter (JArr xs) = Inr xs"
| "py_iter (JStr s) = Inr (map (\<lambda>c. JStr [c]) s)"
| "py_iter (JObj kvs) = Inr (map (\<lambda>kv. JStr (fst kv)) kvs)"
| "py_iter _ = Inl TypeError"

text \<open>The body of \<^verbatim>\<open>for article in articles\<close>, lines 239 to 254.\<close>

definition process_article :: "ai_service \<Rightarrow> json \<Rightarrow> event list result" where
  "process_article ai article =
     bind (py_get article ''id'' JNull) (\<lambda>article_id.
     bind (py_get article ''title'' (JStr ''No Title'')) (\<lambda>title.
     bind (py_slice title) (\<lambda>_.
     bind (get_ai_decision ai article) (\<lambda>(ai_result, calls).
     bind (py_get ai_result ''decision'' (JStr ''maybe'')) (\<lambda>decision.
     bind (py_get ai_result ''reason'' JNull) (\<lambda>reason.
       Inr (calls @ [UpdateStatus article_id decision reason, Sleep 6])))))))"

fun process_batch :: "ai_service \<Rightarrow> json list \<Rightarrow> event list result" where
  "process_batch ai [] = Inr []"
| "process_batch ai (article # rest) =
     bind (process_article ai article) (\<lambda>evs.
     bind (process_batch ai rest) (\<lambda>evs'. Inr (evs @ evs')))"

text \<open>
  The state of the loop: the cursor \<^verbatim>\<open>start_index\<close>, the number of fetches made so far
  (which selects the platform's next answer) and the effects so far.
\<close>

record loop_state =
  start_index :: nat
  fetches :: nat
  trace :: "event list"

definition batch_size :: nat where
  "batch_size = 50"

text \<open>
  One pass through the body of \<^verbatim>\<open>while True\<close> (lines 226 to 256): it leaves the loop
  by \<^verbatim>\<open>break\<close>, or goes round again, or raises.
\<close>

datatype step = Break loop_state | Again loop_state

definition fetched :: "loop_state \<Rightarrow> loop_state" where
  "fetched s = s\<lparr>fetches := Suc (fetches s), trace := trace s @ [Fetch (start_index s) batch_size]\<rparr>"

definition iteration :: "ai_service \<Rightarrow> platform \<Rightarrow> loop_state \<Rightarrow> step result" where
  "iteration ai platform s =
     (case platform (fetches s) (start_index s) batch_size of
        None \<Rightarrow> Inr (Break (fetched s))
      | Some response_obj \<Rightarrow>
          if \<not> ok response_obj then Inr (Break (fetched s))
          else
            (case body response_obj of
               None \<Rightarrow> Inl JSONDecodeError
             | Some data \<Rightarrow>
                 bind (py_get data ''data'' (JArr [])) (\<lambda>articles.
                   if \<not> truthy articles then Inr (Break (fetched s))
                   else
                     bind (py_iter articles) (\<lambda>items.
                     bind (process_batch ai items) (\<lambda>evs.
                     bind (py_len articles) (\<lambda>n.
                       Inr (Again ((fetched s)\<lparr>start_index := start_index s + n,
                                               trace := trace (fetched s) @ evs\<rparr>))))))))"

text \<open>
  The loop itself. It need not end: \<open>None\<close> is a run that goes on for ever, \<open>Some (Inl e)\<close>
  one that stops with an exception, \<open>Some (Inr s)\<close> one that leaves the loop in state \<open>s\<close>.
\<close>

partial_function (option) screening_loop :: "ai_service \<Rightarrow> platform \<Rightarrow> loop_state \<Rightarrow> loop_state result option" where
  "screening_loop ai platform s =
     (case iteration ai platform s of
        Inl e \<Rightarrow> Some (Inl e)
      | Inr (Break s') \<Rightarrow> Some (Inr s')
      | Inr (Again s') \<Rightarrow> screening_loop ai platform s')"

definition initial_state :: loop_state where
  "initial_state = \<lparr>start_index = 0, fetches = 0, trace = []\<rparr>"

text \<open>
  The states in which the loop body can be entered: the start, and every state a
  completed pass leads to.
\<close>

inductive reaches :: "ai_service \<Rightarrow> platform \<Rightarrow> loop_state \<Rightarrow> loop_state \<Rightarrow> bool"
  for ai :: ai_service and platform :: platform
where
  reaches_refl: "reaches ai platform s s"
| reaches_step: "reaches ai platform s s' \<Longrightarrow> iteration ai platform s' = Inr (Again s'')
     \<Longrightarrow> reaches ai platform s s''"

section \<open>Session check at the start of \<^verbatim>\<open>main\<close>\<close>

text \<open>
  Lines 198 to 216 of \<^verbatim>\<open>main.py\<close>. The inputs are whether \<^verbatim>\<open>auth.json\<close> and
  \<^verbatim>\<open>headers.json\<close> exist and what the platform answers to the probe (a fetch with start
  0 and length 1); the result is \<^verbatim>\<open>should_run_setup\<close> and the effects, the call of
  \<^verbatim>\<open>perform_full_setup\<close> among them.
\<close>

definition session_check :: "bool \<Rightarrow> bool \<Rightarrow> platform \<Rightarrow> bool \<times> event list" where
  "session_check auth_exists headers_exists platform =
     (let (should_run_setup, evs) =
            (if \<not> auth_exists \<or> \<not> headers_exists then (True, [])
             else
               (case platform 0 0 1 of
                  None \<Rightarrow> (True, [Fetch 0 1])
                | Some test_response \<Rightarrow>
                    if status test_response = 401 then (True, [Fetch 0 1])
                    else (False, [Fetch 0 1])))
      in (should_run_setup, if should_run_setup then evs @ [FullSetup] else evs))"

section \<open>Header capture: \<^verbatim>\<open>handle_request\<close>\<close>

record request =
  req_method :: string
  req_url :: string
  all_headers :: "(string \<times> string) list"

text \<open>
  The future awaited by \<^verbatim>\<open>perform_full_setup\<close>: pending, holding a result, or
  cancelled (by the timeout of \<^verbatim>\<open>asyncio.wait_for\<close>). \<^verbatim>\<open>future.done()\<close> is true in the
  last two.
\<close>

datatype future = Pending | Resolved "(string \<times> string) list" | Cancelled

definition future_done :: "future \<Rightarrow> bool" where
  "future_done f = (f \<noteq> Pending)"

definition target_url_part :: "string \<Rightarrow> string" where
  "target_url_part review_id = ''/api/v1/reviews/'' @ review_id @ ''/results''"

definition discovered_headers :: "request \<Rightarrow> (string \<times> string) list" where
  "discovered_headers r =
     filter (\<lambda>(key, val). prefix ''x-'' (py_lower key) \<or> py_lower key = ''authorization'')
       (all_headers r)"

text \<open>
  The handler, from the point where the headers have arrived: the test of the future and
  \<^verbatim>\<open>set_result\<close> run without interruption. The result is the future after the call and
  whether \<^verbatim>\<open>set_result\<close> was called.
\<close>

definition handle_request :: "string \<Rightarrow> future \<Rightarrow> request \<Rightarrow> future \<times> bool" where
  "handle_request review_id fut r =
     (if req_method r = ''SEARCH'' \<and> is_substring (target_url_part review_id) (req_url r) then
        (if list_ex (\<lambda>k. py_lower k = ''authorization'') (map fst (discovered_headers r))
            \<and> \<not> future_done fut
         then (Resolved (discovered_headers r), True)
         else (fut, False))
      else (fut, False))"

text \<open>The requests of a browser session, handled one after the other.\<close>

fun handle_all :: "string \<Rightarrow> future \<Rightarrow> request list \<Rightarrow> future \<times> bool list" where
  "handle_all review_id fut [] = (fut, [])"
| "handle_all review_id fut (r # rs) =
     (let (fut', resolved) = handle_request review_id fut r;
          (fut'', rest) = handle_all review_id fut' rs
      in (fut'', resolved # rest))"

section \<open>Duplicate resolution: \<^verbatim>\<open>resolve_duplicates.py\<close>\<close>

definition duplicate_model :: string where
  "duplicate_model = ''gemini-2.0-flash-lite''"

definition analysis_failed :: "json \<times> json" where
  "analysis_failed = (JBool False, JStr ''AI analysis failed.'')"

text \<open>
  \<^verbatim>\<open>are_abstracts_duplicates\<close>: the returned pair and the calls made to the service.
  Every exception inside the \<^verbatim>\<open>try\<close> ends in the same \<^verbatim>\<open>except\<close> branch, so the
  function itself never raises.
\<close>

definition are_abstracts_duplicates :: "ai_service \<Rightarrow> json \<Rightarrow> json \<Rightarrow> (json \<times> json) \<times> event list" where
  "are_abstracts_duplicates ai abstract1 abstract2 =
     (if \<not> truthy abstract1 \<or> \<not> truthy abstract2
      then ((JBool False, JStr ''One or both abstracts were missing.''), [])
      else
        (let p = DuplicatePrompt abstract1 abstract2; calls = [OracleCall duplicate_model p]
         in case ai duplicate_model p of
              Raises \<Rightarrow> (analysis_failed, calls)
            | NoText \<Rightarrow> ((JBool False, JStr ''AI returned no response.''), calls)
            | Text t \<Rightarrow>
                (case json_loads (clean_response t) of
                   None \<Rightarrow> (analysis_failed, calls)
                 | Some decision \<Rightarrow>
                     (case py_get decision ''is_duplicate'' (JBool False) of
                        Inl e \<Rightarrow> (analysis_failed, calls)
                      | Inr is_duplicate \<Rightarrow>
                          (case py_get decision ''reason'' (JStr ''No reason provided.'') of
                             Inl e \<Rightarrow> (analysis_failed, calls)
                           | Inr reason \<Rightarrow> ((is_duplicate, reason), calls))))))"

text \<open>
  \<^verbatim>\<open>resolve_duplicate_status\<close>: the \<^verbatim>\<open>PATCH\<close> sent for the article, with action 1
  (duplicate) or 2 (not a duplicate). A failed \<^verbatim>\<open>PATCH\<close> is only logged.
\<close>

definition duplicate_payload :: "nat \<Rightarrow> json" where
  "duplicate_payload action =
     JObj [(''duplicate_action'', JNum (of_nat action)), (''isDeletedArticle'', JBool False)]"

definition resolve_duplicate_status :: "json \<Rightarrow> json \<Rightarrow> event" where
  "resolve_duplicate_status article_to_resolve_id is_duplicate =
     Patch article_to_resolve_id (duplicate_payload (if truthy is_duplicate then 1 else 2))"

text \<open>
  Grouping (lines 105 to 109). \<^verbatim>\<open>clusters\<close> is a \<^verbatim>\<open>defaultdict(list)\<close>: an association
  list in the order the keys were first inserted. A list or a dict cannot be a key; as keys,
  \<^verbatim>\<open>True\<close> and \<^verbatim>\<open>1\<close> are the same.
\<close>

type_synonym clusters = "(json \<times> json list) list"

fun cluster_key :: "json \<Rightarrow> json result" where
  "cluster_key (JArr xs) = Inl TypeError"
| "cluster_key (JObj kvs) = Inl TypeError"
| "cluster_key (JBool b) = Inr (JNum (if b then 1 else 0))"
| "cluster_key v = Inr v"

fun cluster_append :: "json \<Rightarrow> json \<Rightarrow> clusters \<Rightarrow> clusters" where
  "cluster_append k article [] = [(k, [article])]"
| "cluster_append k article ((k', members) # rest) =
     (if k' = k then (k', members @ [article]) # rest
      else (k', members) # cluster_append k article rest)"

definition cluster_id_of :: "json \<Rightarrow> json result" where
  "cluster_id_of article =
     bind (py_get article ''dedup_results'' (JObj [])) (\<lambda>d. py_get d ''cluster_id'' JNull)"

fun group_by_cluster :: "json list \<Rightarrow> clusters \<Rightarrow> clusters result" where
  "group_by_cluster [] clusters = Inr clusters"
| "group_by_cluster (article # rest) clusters =
     bind (cluster_id_of article) (\<lambda>cluster_id.
       if truthy cluster_id then
         bind (cluster_key cluster_id) (\<lambda>k.
           group_by_cluster rest (cluster_append k article clusters))
       else group_by_cluster rest clusters)"

text \<open>
  \<^verbatim>\<open>lst[0].get("content", "") if lst else ""\<close> for \<^verbatim>\<open>lst = article.get("abstracts", [])\<close>
  (lines 125 to 126 and 133 to 134).
\<close>

definition abstract_of :: "json \<Rightarrow> json result" where
  "abstract_of article =
     bind (py_get article ''abstracts'' (JArr [])) (\<lambda>abstract_list.
       if truthy abstract_list
       then bind (py_index0 abstract_list) (\<lambda>x. py_get x ''content'' (JStr []))
       else Inr (JStr []))"

text \<open>The body of \<^verbatim>\<open>for other_article in articles_in_cluster[1:]\<close>.\<close>

definition compare_other :: "ai_service \<Rightarrow> json \<Rightarrow> json \<Rightarrow> event list result" where
  "compare_other ai anchor_abstract other_article =
     bind (py_get other_article ''id'' JNull) (\<lambda>other_id.
     bind (abstract_of other_article) (\<lambda>other_abstract.
       (let ((is_dup, reason), calls) = are_abstracts_duplicates ai anchor_abstract other_abstract
        in Inr (calls @ [resolve_duplicate_status other_id is_dup, Sleep 5]))))"

fun compare_others :: "ai_service \<Rightarrow> json \<Rightarrow> json list \<Rightarrow> event list result" where
  "compare_others ai anchor_abstract [] = Inr []"
| "compare_others ai anchor_abstract (other_article # rest) =
     bind (compare_other ai anchor_abstract other_article) (\<lambda>evs.
     bind (compare_others ai anchor_abstract rest) (\<lambda>evs'. Inr (evs @ evs')))"

text \<open>The body of the loop over \<^verbatim>\<open>clusters.items()\<close>.\<close>

definition process_cluster :: "ai_service \<Rightarrow> json list \<Rightarrow> event list result" where
  "process_cluster ai articles_in_cluster =
     (if length articles_in_cluster < 2 then Inr []
      else
        (let anchor_article = hd articles_in_cluster
         in bind (py_get anchor_article ''id'' JNull) (\<lambda>anchor_id.
            bind (abstract_of anchor_article) (\<lambda>anchor_abstract.
              compare_others ai anchor_abstract (tl articles_in_cluster)))))"

fun process_clusters :: "ai_service \<Rightarrow> clusters \<Rightarrow> event list result" where
  "process_clusters ai [] = Inr []"
| "process_clusters ai ((cluster_id, articles_in_cluster) # rest) =
     bind (process_cluster ai articles_in_cluster) (\<lambda>evs.
     bind (process_clusters ai rest) (\<lambda>evs'. Inr (evs @ evs')))"

text \<open>
  \<^verbatim>\<open>main\<close> of \<^verbatim>\<open>resolve_duplicates.py\<close> from line 94 on, given the decoded master list
  (\<open>None\<close> where \<^verbatim>\<open>fetch_all_unresolved_duplicates\<close> returns \<^verbatim>\<open>None\<close>).
\<close>

definition resolve_all :: "ai_service \<Rightarrow> json option \<Rightarrow> event list result" where
  "resolve_all ai master_list_data =
     (case master_list_data of
        None \<Rightarrow> Inr []
      | Some m \<Rightarrow>
          if \<not> truthy m then Inr []
          else
            bind (py_get m ''data'' JNull) (\<lambda>d.
              if \<not> truthy d then Inr []
              else
                bind (py_get m ''data'' (JArr [])) (\<lambda>all_articles.
                bind (py_iter all_articles) (\<lambda>items.
                bind (group_by_cluster items []) (\<lambda>clusters.
                  process_clusters ai clusters)))))"

section \<open>Stand-ins used in the examples\<close>


text \<open>A record with id, title and one abstract.\<close>

definition record_of :: "rat \<Rightarrow> string \<Rightarrow> string \<Rightarrow> json" where
  "record_of i t a =
     JObj [(''id'', JNum i), (''title'', JStr t), (''abstracts'', JArr [JObj [(''content'', JStr a)]])]"

text \<open>A platform that gives the same answer to every fetch.\<close>

definition answering :: "api_response option \<Rightarrow> platform" where
  "answering r k start len = r"

text \<open>Two requests to the results endpoint of review 42, each carrying an authorization header.\<close>

definition first_request :: request where
  "first_request =
     \<lparr>req_method = ''SEARCH'', req_url = ''https://rayyan.ai/api/v1/reviews/42/results'',
      all_headers = [(''Authorization'', ''Bearer a''), (''X-Client'', ''web''), (''accept'', ''*/*'')]\<rparr>"

definition second_request :: request where
  "second_request =
     \<lparr>req_method = ''SEARCH'', req_url = ''https://rayyan.ai/api/v1/reviews/42/results'',
      all_headers = [(''authorization'', ''Bearer b'')]\<rparr>"

section \<open>Notions used to state the properties\<close>

text \<open>A record takes part in the grouping when its cluster id is read without raising and is true.\<close>

definition in_cluster :: "json \<Rightarrow> bool" where
  "in_cluster article = (case cluster_id_of article of Inl e \<Rightarrow> False | Inr c \<Rightarrow> truthy c)"

text \<open>The dict key under which a record is grouped, if it is grouped.\<close>

definition key_of :: "json \<Rightarrow> json option" where
  "key_of article =
     (case cluster_id_of article of
        Inl e \<Rightarrow> None
      | Inr c \<Rightarrow> if truthy c then (case cluster_key c of Inl e \<Rightarrow> None | Inr k \<Rightarrow> Some k) else None)"

definition cluster_keys :: "json list \<Rightarrow> json list" where
  "cluster_keys articles = List.map_filter key_of articles"

text \<open>The elements of a list in the order of their first occurrence.\<close>

definition first_seen :: "'a list \<Rightarrow> 'a list" where
  "first_seen xs = rev (remdups (rev xs))"

text \<open>The id and the abstract of a cluster member, as the loop reads them.\<close>

definition member_id :: "json \<Rightarrow> json" where
  "member_id article = (case py_get article ''id'' JNull of Inl e \<Rightarrow> JNull | Inr i \<Rightarrow> i)"

definition member_abstract :: "json \<Rightarrow> json" where
  "member_abstract article = (case abstract_of article of Inl e \<Rightarrow> JStr [] | Inr a \<Rightarrow> a)"

text \<open>What one comparison of a member with the anchor does: the calls, the write, the pause.\<close>

definition comparison :: "ai_service \<Rightarrow> json \<Rightarrow> json \<Rightarrow> event list" where
  "comparison ai anchor other =
     snd (are_abstracts_duplicates ai (member_abstract anchor) (member_abstract other))
     @ [Patch (member_id other)
          (duplicate_payload
             (if truthy (fst (fst (are_abstracts_duplicates ai (member_abstract anchor)
                                     (member_abstract other))))
              then 1 else 2)),
        Sleep 5]"

text \<open>The article ids written by the \<^verbatim>\<open>PATCH\<close>es of a run, in order.\<close>

fun patched_ids :: "event list \<Rightarrow> json list" where
  "patched_ids [] = []"
| "patched_ids (Patch i p # evs) = i # patched_ids evs"
| "patched_ids (e # evs) = patched_ids evs"

text \<open>The prompts sent to the reasoning service in a run, in order.\<close>

fun prompts_sent :: "event list \<Rightarrow> prompt list" where
  "prompts_sent [] = []"
| "prompts_sent (OracleCall m p # evs) = p # prompts_sent evs"
| "prompts_sent (e # evs) = prompts_sent evs"

text \<open>
  The fetch made in state \<open>s\<close> returns an empty batch: the response is OK and its
  \<^verbatim>\<open>data\<close> is empty (or absent).
\<close>

definition empty_batch :: "platform \<Rightarrow> loop_state \<Rightarrow> bool" where
  "empty_batch platform s =
     (case platform (fetches s) (start_index s) batch_size of
        None \<Rightarrow> False
      | Some r \<Rightarrow>
          ok r \<and>
          (case body r of
             None \<Rightarrow> False
           | Some data \<Rightarrow>
               (case py_get data ''data'' (JArr []) of Inl e \<Rightarrow> False | Inr articles \<Rightarrow> \<not> truthy articles)))"

text \<open>The fetch made in state \<open>s\<close> fails: there is no response, or the response is not OK.\<close>

definition failed_fetch :: "platform \<Rightarrow> loop_state \<Rightarrow> bool" where
  "failed_fetch platform s =
     (case platform (fetches s) (start_index s) batch_size of None \<Rightarrow> True | Some r \<Rightarrow> \<not> ok r)"

text \<open>A record of the duplicate list: id, cluster id and one abstract.\<close>

definition clustered :: "rat \<Rightarrow> json \<Rightarrow> string \<Rightarrow> json" where
  "clustered i c a =
     JObj [(''id'', JNum i), (''dedup_results'', JObj [(''cluster_id'', c)]),
           (''abstracts'', JArr [JObj [(''content'', JStr a)]])]"

text \<open>A reasoning service that finds abstract A and abstract B to be duplicates, and nothing else.\<close>

definition a_equals_b :: ai_service where
  "a_equals_b model p =
     (if p = DuplicatePrompt (JStr ''A'') (JStr ''B'')
      then Text ''{\"is_duplicate\": true, \"reason\": \"same study\"}''
      else Text ''{\"is_duplicate\": false, \"reason\": \"different\"}'')"

text \<open>A platform holding three undecided records: it gives two, then one, then none.\<close>

definition batch :: "json list \<Rightarrow> api_response option" where
  "batch articles = Some \<lparr>ok = True, status = 200, body = Some (JObj [(''data'', JArr articles)])\<rparr>"

definition three_records :: platform where
  "three_records k start len =
     (if k = 0 then batch [record_of 1 ''T1'' [], record_of 2 ''T2'' []]
      else if k = 1 then batch [record_of 3 ''T3'' []]
      else batch [])"

section \<open>Properties of the screening decision\<close>

lemma bind_Inl [simp]: "bind (Inl e) f = Inl e"
  by (simp add: bind_def)

lemma bind_Inr [simp]: "bind (Inr x) f = f x"
  by (simp add: bind_def)

text \<open>
  Claim C1. A record whose title is missing or empty, or whose abstract is missing or
  empty, is classified as exclude with the reason "Missing Data", and the reasoning service
  is not called: the list of calls is empty, whatever the service would have answered.
  Missing or empty is Python's \<^verbatim>\<open>not x\<close>; the abstract is the content of the first
  entry of \<^verbatim>\<open>abstracts\<close>, read without raising.
\<close>

theorem missing_data_short_circuit:
  assumes "article_abstract (JObj kvs) = Inr abstract"
    and "(case map_of kvs ''title'' of None \<Rightarrow> True | Some t \<Rightarrow> \<not> truthy t) \<or> \<not> truthy abstract"
  shows "get_ai_decision ai (JObj kvs) = Inr (decision_dict ''exclude'' ''Missing Data'', [])"
  using assms by (auto simp: get_ai_decision_def split: option.splits)

theorem missing_data_short_circuit_witness:
  "article_abstract (JObj [(''id'', JNum 1), (''title'', JStr ''T'')]) = Inr (JStr [])
   \<and> \<not> truthy (JStr [])
   \<and> get_ai_decision (\<lambda>m p. Text ''{\"decision\": \"include\"}'')
        (JObj [(''id'', JNum 1), (''title'', JStr ''T'')])
      = Inr (JObj [(''decision'', JStr ''exclude''), (''reason'', JStr ''Missing Data'')], [])"
proof -
  have a: "article_abstract (JObj [(''id'', JNum 1), (''title'', JStr ''T'')]) = Inr (JStr [])"
    by (simp add: article_abstract_def)
  have b: "(case map_of [(''id'', JNum 1), (''title'', JStr ''T'')] ''title'' of
              None \<Rightarrow> True | Some t \<Rightarrow> \<not> truthy t) \<or> \<not> truthy (JStr [])"
    by simp
  show ?thesis
    using a missing_data_short_circuit [OF a b] by (simp add: decision_dict_def)
qed

















section \<open>Properties of the duplicate comparison\<close>



lemma other_abstract: "abstract_of (record_of i t a) = Inr (JStr a)"
  by (simp add: abstract_of_def record_of_def)

lemma other_id: "py_get (record_of i t a) ''id'' JNull = Inr (JNum i)"
  by (simp add: record_of_def)




section \<open>Properties of the session check\<close>

text \<open>
  Claim C8. The browser setup is run exactly when \<^verbatim>\<open>auth.json\<close> or \<^verbatim>\<open>headers.json\<close>
  is absent, or the probe fails: the probing fetch gives no response, or a response with
  status 401. The probe itself is made exactly when both files exist; with both files and
  any other response there is no setup.
\<close>

theorem setup_iff_files_missing_or_probe_invalid:
  "((FullSetup \<in> set (snd (session_check auth_exists headers_exists platform)))
      = (\<not> auth_exists \<or> \<not> headers_exists \<or> platform 0 0 1 = None
         \<or> (\<exists>r. platform 0 0 1 = Some r \<and> status r = 401)))
   \<and> fst (session_check auth_exists headers_exists platform)
      = (FullSetup \<in> set (snd (session_check auth_exists headers_exists platform)))
   \<and> ((Fetch 0 1 \<in> set (snd (session_check auth_exists headers_exists platform)))
      = (auth_exists \<and> headers_exists))"
  by (auto simp: session_check_def Let_def split: option.splits)

theorem setup_iff_files_missing_or_probe_invalid_witness:
  "session_check True True (answering (Some \<lparr>ok = False, status = 401, body = None\<rparr>))
     = (True, [Fetch 0 1, FullSetup])
   \<and> session_check True True (answering (Some \<lparr>ok = False, status = 500, body = None\<rparr>))
     = (False, [Fetch 0 1])
   \<and> session_check True True (answering None) = (True, [Fetch 0 1, FullSetup])
   \<and> session_check False True (answering (Some \<lparr>ok = True, status = 200, body = None\<rparr>))
     = (True, [FullSetup])"
  using setup_iff_files_missing_or_probe_invalid
          [of True True "answering (Some \<lparr>ok = False, status = 401, body = None\<rparr>)"]
  by (simp add: session_check_def answering_def)

section \<open>Properties of the header capture\<close>

lemma handle_request_done:
  "fut \<noteq> Pending \<Longrightarrow> handle_request rid fut r = (fut, False)"
  by (simp add: handle_request_def future_done_def)

lemma handle_all_done:
  "fut \<noteq> Pending \<Longrightarrow> handle_all rid fut rs = (fut, replicate (length rs) False)"
  by (induction rs) (simp_all add: handle_request_done)

lemma handle_request_cases:
  "handle_request rid fut r = (fut, False)
   \<or> (fut = Pending \<and> handle_request rid fut r = (Resolved (discovered_headers r), True))"
  by (simp add: handle_request_def future_done_def)

lemma handle_all_at_most_once:
  "length (filter (\<lambda>b. b) (snd (handle_all rid fut rs))) \<le> 1"
proof (induction rs arbitrary: fut)
  case Nil
  show ?case by simp
next
  case (Cons r rs)
  from handle_request_cases [of rid fut r] show ?case
  proof
    assume "handle_request rid fut r = (fut, False)"
    with Cons.IH [of fut] show ?thesis
      by (auto split: prod.splits)
  next
    assume "fut = Pending \<and> handle_request rid fut r = (Resolved (discovered_headers r), True)"
    then have p: "fut = Pending"
      and h: "handle_request rid Pending r = (Resolved (discovered_headers r), True)"
      by blast+
    show ?thesis
      by (simp add: p h handle_all_done)
  qed
qed

lemma two_requests:
  "handle_all ''42'' Pending [first_request, second_request]
     = (Resolved [(''Authorization'', ''Bearer a''), (''X-Client'', ''web'')], [True, False])"
  by code_simp

lemma one_request:
  "handle_request ''42'' Pending first_request
     = (Resolved [(''Authorization'', ''Bearer a''), (''X-Client'', ''web'')], True)"
  by code_simp

text \<open>
  Claim C9. The future of the header capture is resolved at most once in a run. A call of
  the handler resolves it only if the future is still pending, the request is a
  \<^verbatim>\<open>SEARCH\<close> whose URL contains the results path of the review, and the filtered headers
  (those of the request whose lower-cased key starts with \<^verbatim>\<open>x-\<close> or is
  \<^verbatim>\<open>authorization\<close>) contain an authorization key; the value set is that filtered map.
  Once the future is no longer pending every later request leaves it as it is, so over any
  sequence of requests \<^verbatim>\<open>set_result\<close> is called at most once.
\<close>

theorem header_capture_first_match_wins:
  "(snd (handle_request rid fut r) \<longrightarrow>
      fut = Pending
      \<and> req_method r = ''SEARCH'' \<and> is_substring (target_url_part rid) (req_url r)
      \<and> (\<exists>kv \<in> set (discovered_headers r). py_lower (fst kv) = ''authorization'')
      \<and> fst (handle_request rid fut r) = Resolved (discovered_headers r))
   \<and> (\<forall>kv \<in> set (discovered_headers r).
         kv \<in> set (all_headers r)
         \<and> (prefix ''x-'' (py_lower (fst kv)) \<or> py_lower (fst kv) = ''authorization''))
   \<and> (fut \<noteq> Pending \<longrightarrow> handle_all rid fut rs = (fut, replicate (length rs) False))
   \<and> length (filter (\<lambda>b. b) (snd (handle_all rid fut rs))) \<le> 1"
proof -
  have a: "snd (handle_request rid fut r) \<longrightarrow>
      fut = Pending
      \<and> req_method r = ''SEARCH'' \<and> is_substring (target_url_part rid) (req_url r)
      \<and> (\<exists>kv \<in> set (discovered_headers r). py_lower (fst kv) = ''authorization'')
      \<and> fst (handle_request rid fut r) = Resolved (discovered_headers r)"
    by (auto simp: handle_request_def future_done_def list_ex_iff split: if_splits)
  have b: "\<forall>kv \<in> set (discovered_headers r).
         kv \<in> set (all_headers r)
         \<and> (prefix ''x-'' (py_lower (fst kv)) \<or> py_lower (fst kv) = ''authorization'')"
    by (auto simp: discovered_headers_def)
  from a b handle_all_done [of fut rid rs] handle_all_at_most_once [of rid fut rs]
  show ?thesis by blast
qed

theorem header_capture_first_match_wins_witness:
  "snd (handle_request ''42'' Pending first_request)
   \<and> fst (handle_request ''42'' Pending first_request)
       = Resolved [(''Authorization'', ''Bearer a''), (''X-Client'', ''web'')]
   \<and> Resolved [(''Authorization'', ''Bearer a'')] \<noteq> Pending
   \<and> handle_all ''42'' (Resolved [(''Authorization'', ''Bearer a'')]) [second_request]
       = (Resolved [(''Authorization'', ''Bearer a'')], [False])
   \<and> handle_all ''42'' Pending [first_request, second_request]
       = (Resolved [(''Authorization'', ''Bearer a''), (''X-Client'', ''web'')], [True, False])"
  using header_capture_first_match_wins
          [of "''42''" Pending first_request "[first_request, second_request]"]
        header_capture_first_match_wins
          [of "''42''" "Resolved [(''Authorization'', ''Bearer a'')]" first_request "[second_request]"]
  by (simp add: one_request two_requests del: handle_all.simps)

section \<open>Properties of the duplicate clusters\<close>

lemma cluster_append_members:
  "mset (concat (map snd (cluster_append k a cl))) = add_mset a (mset (concat (map snd cl)))"
proof (induction cl)
  case Nil
  show ?case by simp
next
  case (Cons p cl)
  obtain k' ms where p: "p = (k', ms)" by (cases p)
  show ?case
  proof (cases "k' = k")
    case True
    then show ?thesis by (simp add: p)
  next
    case False
    then show ?thesis using Cons.IH by (simp add: p)
  qed
qed

lemma cluster_append_keys:
  "map fst (cluster_append k a cl) = (if k \<in> fst ` set cl then map fst cl else map fst cl @ [k])"
proof (induction cl)
  case Nil
  show ?case by simp
next
  case (Cons p cl)
  obtain k' ms where p: "p = (k', ms)" by (cases p)
  show ?case
  proof (cases "k' = k")
    case True
    then show ?thesis by (simp add: p)
  next
    case False
    then show ?thesis using Cons.IH by (simp add: p)
  qed
qed

lemma cluster_append_own_key:
  assumes "list_all (\<lambda>(k', ms). list_all (\<lambda>m. key_of m = Some k') ms) cl" and "key_of a = Some k"
  shows "list_all (\<lambda>(k', ms). list_all (\<lambda>m. key_of m = Some k') ms) (cluster_append k a cl)"
  using assms by (induction cl) auto

lemma first_seen_snoc:
  "first_seen (xs @ [x]) = (if x \<in> set xs then first_seen xs else first_seen xs @ [x])"
  by (simp add: first_seen_def)

lemma set_first_seen: "set (first_seen xs) = set xs"
  by (simp add: first_seen_def)

lemma distinct_first_seen: "distinct (first_seen xs)"
  by (simp add: first_seen_def)

lemma cluster_keys_Cons:
  "cluster_keys (a # as) = (case key_of a of None \<Rightarrow> cluster_keys as | Some k \<Rightarrow> k # cluster_keys as)"
  by (simp add: cluster_keys_def split: option.splits)

lemma group_step:
  assumes "group_by_cluster (a # as) cl = Inr cl'"
  shows "(in_cluster a \<and> (\<exists>k. key_of a = Some k \<and> group_by_cluster as (cluster_append k a cl) = Inr cl'))
       \<or> (\<not> in_cluster a \<and> key_of a = None \<and> group_by_cluster as cl = Inr cl')"
proof (cases "cluster_id_of a")
  case (Inl e)
  with assms show ?thesis by simp
next
  case (Inr c)
  show ?thesis
  proof (cases "truthy c")
    case False
    with Inr assms show ?thesis
      by (simp add: in_cluster_def key_of_def)
  next
    case True
    show ?thesis
    proof (cases "cluster_key c")
      case (Inl e)
      with True Inr assms show ?thesis by simp
    next
      case k: (Inr k)
      with True Inr assms show ?thesis
        by (simp add: in_cluster_def key_of_def)
    qed
  qed
qed

lemma group_members:
  "group_by_cluster as cl = Inr cl' \<Longrightarrow>
     mset (concat (map snd cl')) = mset (concat (map snd cl)) + mset (filter in_cluster as)"
proof (induction as arbitrary: cl)
  case Nil
  then show ?case by simp
next
  case (Cons a as)
  from group_step [OF Cons.prems] show ?case
  proof (elim disjE conjE exE)
    fix k
    assume "in_cluster a" "key_of a = Some k" "group_by_cluster as (cluster_append k a cl) = Inr cl'"
    then show ?thesis
      using Cons.IH [of "cluster_append k a cl"] by (simp add: cluster_append_members)
  next
    assume "\<not> in_cluster a" "group_by_cluster as cl = Inr cl'"
    then show ?thesis
      using Cons.IH [of cl] by simp
  qed
qed

lemma group_keys:
  "group_by_cluster as cl = Inr cl' \<Longrightarrow> map fst cl = first_seen seen \<Longrightarrow>
     map fst cl' = first_seen (seen @ cluster_keys as)"
proof (induction as arbitrary: cl seen)
  case Nil
  then show ?case by (simp add: cluster_keys_def)
next
  case (Cons a as)
  from group_step [OF Cons.prems(1)] show ?case
  proof (elim disjE conjE exE)
    fix k
    assume k: "key_of a = Some k" and g: "group_by_cluster as (cluster_append k a cl) = Inr cl'"
    have "fst ` set cl = set seen"
      using Cons.prems(2) set_first_seen [of seen] by (metis set_map)
    then have "map fst (cluster_append k a cl) = first_seen (seen @ [k])"
      using Cons.prems(2) by (simp add: cluster_append_keys first_seen_snoc)
    from Cons.IH [OF g this] k show ?thesis
      by (simp add: cluster_keys_Cons)
  next
    assume k: "key_of a = None" and g: "group_by_cluster as cl = Inr cl'"
    from Cons.IH [OF g Cons.prems(2)] k show ?thesis
      by (simp add: cluster_keys_Cons)
  qed
qed

lemma group_own_key:
  "group_by_cluster as cl = Inr cl' \<Longrightarrow>
   list_all (\<lambda>(k', ms). list_all (\<lambda>m. key_of m = Some k') ms) cl \<Longrightarrow>
   list_all (\<lambda>(k', ms). list_all (\<lambda>m. key_of m = Some k') ms) cl'"
proof (induction as arbitrary: cl)
  case Nil
  then show ?case by simp
next
  case (Cons a as)
  from group_step [OF Cons.prems(1)] show ?case
  proof (elim disjE conjE exE)
    fix k
    assume k: "key_of a = Some k" and g: "group_by_cluster as (cluster_append k a cl) = Inr cl'"
    from Cons.IH [OF g cluster_append_own_key [OF Cons.prems(2) k]] show ?thesis .
  next
    assume g: "group_by_cluster as cl = Inr cl'"
    from Cons.IH [OF g Cons.prems(2)] show ?thesis .
  qed
qed

lemma group_order:
  assumes "group_by_cluster articles [] = Inr clusters"
  shows "map fst clusters = first_seen (cluster_keys articles)"
proof -
  have "map fst ([] :: clusters) = first_seen []"
    by (simp add: first_seen_def)
  from group_keys [OF assms this] show ?thesis
    by simp
qed

lemma bind_Inr_iff: "bind m f = Inr y \<longleftrightarrow> (\<exists>x. m = Inr x \<and> f x = Inr y)"
  by (cases m) simp_all

lemma compare_other_events:
  assumes "compare_other ai aa other = Inr evs" and "abstract_of anchor = Inr aa"
  shows "evs = comparison ai anchor other"
proof -
  obtain i where i: "py_get other ''id'' JNull = Inr i"
    using assms(1) by (cases "py_get other ''id'' JNull") (simp_all add: compare_other_def)
  obtain b where b: "abstract_of other = Inr b"
    using assms(1) i by (cases "abstract_of other") (simp_all add: compare_other_def)
  obtain d r c where a: "are_abstracts_duplicates ai aa b = ((d, r), c)"
    by (metis prod.collapse)
  from assms(1) i b a have "evs = c @ [resolve_duplicate_status i d, Sleep 5]"
    by (simp add: compare_other_def)
  with a i b assms(2) show ?thesis
    by (simp add: comparison_def member_id_def member_abstract_def resolve_duplicate_status_def)
qed

lemma compare_others_events:
  assumes "abstract_of anchor = Inr aa"
  shows "compare_others ai aa others = Inr evs \<Longrightarrow> evs = concat (map (comparison ai anchor) others)"
proof (induction others arbitrary: evs)
  case Nil
  then show ?case by simp
next
  case (Cons other rest)
  from Cons.prems obtain e1 e2 where 1: "compare_other ai aa other = Inr e1"
    and 2: "compare_others ai aa rest = Inr e2" and 3: "evs = e1 @ e2"
    by (auto simp: bind_Inr_iff)
  from compare_other_events [OF 1 assms] Cons.IH [OF 2] 3 show ?case
    by simp
qed

lemma process_cluster_events:
  assumes "process_cluster ai members = Inr evs"
  shows "evs = (if length members < 2 then [] else concat (map (comparison ai (hd members)) (tl members)))"
proof (cases "length members < 2")
  case True
  with assms show ?thesis by (simp add: process_cluster_def)
next
  case False
  with assms obtain aa where a: "abstract_of (hd members) = Inr aa"
    and c: "compare_others ai aa (tl members) = Inr evs"
    by (auto simp: process_cluster_def Let_def bind_Inr_iff)
  from compare_others_events [OF a c] False show ?thesis
    by simp
qed

lemma process_clusters_events:
  "process_clusters ai clusters = Inr evs \<Longrightarrow>
     evs = concat (map (\<lambda>(k, members).
             if length members < 2 then [] else concat (map (comparison ai (hd members)) (tl members)))
           clusters)"
proof (induction clusters arbitrary: evs)
  case Nil
  then show ?case by simp
next
  case (Cons p rest)
  obtain k members where p: "p = (k, members)" by (cases p)
  from Cons.prems obtain e1 e2 where 1: "process_cluster ai members = Inr e1"
    and 2: "process_clusters ai rest = Inr e2" and 3: "evs = e1 @ e2"
    by (auto simp: p bind_Inr_iff)
  from process_cluster_events [OF 1] Cons.IH [OF 2] 3 show ?case
    by (simp add: p)
qed

lemma patched_ids_append: "patched_ids (xs @ ys) = patched_ids xs @ patched_ids ys"
  by (induction xs rule: patched_ids.induct) simp_all

lemma prompts_sent_append: "prompts_sent (xs @ ys) = prompts_sent xs @ prompts_sent ys"
  by (induction xs rule: prompts_sent.induct) simp_all

lemma patched_ids_concat: "patched_ids (concat xss) = concat (map patched_ids xss)"
  by (induction xss) (simp_all add: patched_ids_append)

lemma prompts_sent_concat: "prompts_sent (concat xss) = concat (map prompts_sent xss)"
  by (induction xss) (simp_all add: prompts_sent_append)

lemma calls_of_comparison:
  "snd (are_abstracts_duplicates ai a b) =
     (if truthy a \<and> truthy b then [OracleCall duplicate_model (DuplicatePrompt a b)] else [])"
  by (simp add: are_abstracts_duplicates_def Let_def split: reply.splits option.splits sum.splits)

lemma patched_ids_comparison: "patched_ids (comparison ai anchor other) = [member_id other]"
  by (simp add: comparison_def patched_ids_append calls_of_comparison)

lemma prompts_sent_comparison:
  "prompts_sent (comparison ai anchor other) =
     (if truthy (member_abstract anchor) \<and> truthy (member_abstract other)
      then [DuplicatePrompt (member_abstract anchor) (member_abstract other)] else [])"
  by (simp add: comparison_def prompts_sent_append calls_of_comparison)

lemma patched_ids_cluster:
  "patched_ids (concat (map (comparison ai anchor) others)) = map member_id others"
  by (induction others) (simp_all add: patched_ids_append patched_ids_comparison)

lemma patched_ids_clusters:
  "patched_ids (concat (map (\<lambda>(k, members).
             if length members < 2 then [] else concat (map (comparison ai (hd members)) (tl members)))
           clusters))
   = concat (map (\<lambda>(k, members). if length members < 2 then [] else map member_id (tl members)) clusters)"
  by (induction clusters) (auto simp: patched_ids_append patched_ids_cluster)

lemma prompts_are_duplicate_prompts:
  "p \<in> set (prompts_sent (concat (map (\<lambda>(k, members).
             if length members < 2 then [] else concat (map (comparison ai (hd members)) (tl members)))
           clusters)))
   \<Longrightarrow> \<exists>k members m. (k, members) \<in> set clusters \<and> m \<in> set (tl members)
         \<and> p = DuplicatePrompt (member_abstract (hd members)) (member_abstract m)"
  by (auto simp: prompts_sent_concat prompts_sent_comparison split: if_splits, blast)

end
